theory Spec2Isabelle
  imports Main
begin

section \<open>Resource explorer item: data model\<close>

text \<open>
  Icons. The constants of \<^verbatim>\<open>constants/icons\<close> and the three \<^verbatim>\<open>react-icons/bs\<close>
  components used as icons are imported by the component, not defined in it; each one is
  represented by its name.
\<close>

datatype icon_node =
    deleteIcon | disabledResourceIcon | enabledResourceIcon | refreshIcon
  | renameIcon | resourceIcon | startIcon | stopIcon
  | BsCheckBox | BsFillEyeFill | BsSquare

text \<open>
  Endpoint identifiers of \<^verbatim>\<open>shared/api.events\<close>, by name:
  \<^verbatim>\<open>projectApi.setResourceConfig\<close>, \<^verbatim>\<open>serverApi.startResource\<close>,
  \<^verbatim>\<open>serverApi.stopResource\<close>, \<^verbatim>\<open>serverApi.restartResource\<close>.
\<close>

datatype api_event =
    projectApi_setResourceConfig
  | serverApi_startResource
  | serverApi_stopResource
  | serverApi_restartResource

text \<open>
  Modelled from the spec: the type \<^verbatim>\<open>ProjectResource\<close> (\<^verbatim>\<open>shared/project.types\<close>) is
  not among the sources. The spec gives the persisted settings \<^verbatim>\<open>enabled: bool\<close> and
  \<^verbatim>\<open>restartOnChange: bool\<close>, and the request's patch \<^verbatim>\<open>{enabled?, restartOnChange?}\<close>:
  a field that is absent (\<^verbatim>\<open>undefined\<close> when read) is \<open>None\<close>.
\<close>

record ProjectResource =
  enabled :: "bool option"
  restartOnChange :: "bool option"

text \<open>
  Modelled from the spec: \<^verbatim>\<open>ProjectSetResourceConfigRequest\<close> (\<^verbatim>\<open>shared/api.requests\<close>),
  the payload \<^verbatim>\<open>{resourceName, config: {enabled?, restartOnChange?}}\<close>.
\<close>

record ProjectSetResourceConfigRequest =
  resourceName :: string
  config :: ProjectResource

text \<open>
  What \<^verbatim>\<open>sendApiMessage\<close> is given as its second argument in this component: the bare
  resource name, or a set-config request.
\<close>

datatype api_payload =
    ResourceNamePayload string
  | SetResourceConfigPayload ProjectSetResourceConfigRequest

type_synonym api_message = "api_event \<times> api_payload"

text \<open>
  Modelled from the spec: \<^verbatim>\<open>ResourceStatus\<close> (backend resource types) is not among the
  sources; \<^verbatim>\<open>watchCommands\<close> is a mapping from command id to \<^verbatim>\<open>{running: bool}\<close>. The object
  is kept as the list of its entries, so that \<^verbatim>\<open>Object.values\<close> has an order.
\<close>

record WatchCommand =
  running :: bool

text \<open>
  Modelled from the spec: the per-resource runtime status, of which the component reads
  \<^verbatim>\<open>watchCommands\<close> only.
\<close>

record ResourceStatus =
  watchCommands :: "(string \<times> WatchCommand) list"

definition defaultResourceStatus :: ResourceStatus where
  "defaultResourceStatus = \<lparr>watchCommands = []\<rparr>"

definition Object_values :: "(string \<times> 'a) list \<Rightarrow> 'a list" where
  "Object_values obj = map snd obj"

text \<open>
  The connectivity store \<^verbatim>\<open>ServerState\<close> is an external singleton; the component reads
  \<^verbatim>\<open>isUp\<close> and calls \<^verbatim>\<open>isResourceRunning(name)\<close>. Both are inputs here.
\<close>

record ServerState =
  isUp :: bool
  isResourceRunning :: "string \<Rightarrow> bool"

text \<open>
  Everything a handler of this component can change: the three pieces of React state
  behind the \<^verbatim>\<open>useOpenFlag\<close> calls, and the messages handed to the dispatch channel, in
  the order they were sent.
\<close>

record world =
  deleterOpenState :: bool
  renamerOpenState :: bool
  commandsOutputOpenState :: bool
  sentApiMessages :: "api_message list"

text \<open>The component at mount: every \<^verbatim>\<open>useOpenFlag(false)\<close>, and nothing sent yet.\<close>

definition initial_world :: world where
  "initial_world =
     \<lparr>deleterOpenState = False, renamerOpenState = False,
      commandsOutputOpenState = False, sentApiMessages = []\<rparr>"

text \<open>
  Modelled from the spec: \<^verbatim>\<open>sendApiMessage\<close> (\<^verbatim>\<open>utils/api\<close>) is not among the sources.
  The spec's dispatch channel is \<^verbatim>\<open>send(endpointId, payload?) -> void\<close>, fire and forget:
  the call is recorded and nothing else changes.
\<close>

definition sendApiMessage :: "api_event \<Rightarrow> api_payload \<Rightarrow> world \<Rightarrow> world" where
  "sendApiMessage event payload w = w\<lparr>sentApiMessages := sentApiMessages w @ [(event, payload)]\<rparr>"

text \<open>
  Modelled from the spec: \<^verbatim>\<open>useOpenFlag\<close> (\<^verbatim>\<open>utils/hooks\<close>) is not among the sources.
  Per the spec each flag is an independent boolean with its own open/close pair and
  the initial value passed to the hook: \<^verbatim>\<open>open\<close> sets its flag, \<^verbatim>\<open>close\<close> clears it, and
  neither touches anything else. This one is the open function of the deleter flag.
\<close>

definition openDeleter :: "world \<Rightarrow> world" where
  "openDeleter w = w\<lparr>deleterOpenState := True\<rparr>"

text \<open>Modelled from the spec: the close function of the deleter flag.\<close>

definition closeDeleter :: "world \<Rightarrow> world" where
  "closeDeleter w = w\<lparr>deleterOpenState := False\<rparr>"

text \<open>Modelled from the spec: the open function of the renamer flag.\<close>

definition openRenamer :: "world \<Rightarrow> world" where
  "openRenamer w = w\<lparr>renamerOpenState := True\<rparr>"

text \<open>Modelled from the spec: the close function of the renamer flag.\<close>

definition closeRenamer :: "world \<Rightarrow> world" where
  "closeRenamer w = w\<lparr>renamerOpenState := False\<rparr>"

text \<open>Modelled from the spec: the open function of the commands-output flag.\<close>

definition openCommandsOutput :: "world \<Rightarrow> world" where
  "openCommandsOutput w = w\<lparr>commandsOutputOpenState := True\<rparr>"

text \<open>Modelled from the spec: the close function of the commands-output flag
  (\<^verbatim>\<open>closeCommandsOutput\<close> in the source).\<close>

definition closeCommandsOutput_handler :: "world \<Rightarrow> world" where
  "closeCommandsOutput_handler w = w\<lparr>commandsOutputOpenState := False\<rparr>"

text \<open>
  A context menu entry \<^verbatim>\<open>{id, icon, text, disabled?, onClick}\<close>. \<^verbatim>\<open>disabled\<close> is \<open>None\<close>
  where the object literal has no such key (or the value read for it is \<^verbatim>\<open>undefined\<close>).
\<close>

record ContextMenuItem =
  id_item :: string
  icon :: icon_node
  text_item :: string
  disabled :: "bool option"
  onClick :: "world \<Rightarrow> world"

datatype menu_entry = ContextMenuItemSeparator | Item ContextMenuItem

type_synonym ContextMenuItemsCollection = "menu_entry list"

section \<open>useResourceLifecycle\<close>

text \<open>\<^verbatim>\<open>!!x\<close> for \<^verbatim>\<open>x: boolean | undefined\<close>.\<close>

fun truthy :: "bool option \<Rightarrow> bool" where
  "truthy None = False"
| "truthy (Some b) = b"

text \<open>\<^verbatim>\<open>resourceConfig?.field\<close>: \<^verbatim>\<open>undefined\<close> when the config itself is absent.\<close>

definition optional_chain :: "'a option \<Rightarrow> ('a \<Rightarrow> 'b option) \<Rightarrow> 'b option" where
  "optional_chain obj field = (case obj of None \<Rightarrow> None | Some c \<Rightarrow> field c)"

definition isEnabled :: "ProjectResource option \<Rightarrow> bool" where
  "isEnabled resourceConfig = truthy (optional_chain resourceConfig enabled)"

definition isAutorestartOnChangeEnabled :: "ProjectResource option \<Rightarrow> bool" where
  "isAutorestartOnChangeEnabled resourceConfig = truthy (optional_chain resourceConfig restartOnChange)"

definition handleToggleEnabled :: "string \<Rightarrow> bool \<Rightarrow> world \<Rightarrow> world" where
  "handleToggleEnabled rName enabledNow =
     (let request = \<lparr>resourceName = rName,
                     config = \<lparr>enabled = Some (\<not> enabledNow), restartOnChange = None\<rparr>\<rparr>
      in sendApiMessage projectApi_setResourceConfig (SetResourceConfigPayload request))"

definition handleToggleAutorestartEnabled :: "string \<Rightarrow> bool \<Rightarrow> world \<Rightarrow> world" where
  "handleToggleAutorestartEnabled rName autorestartNow =
     (let request = \<lparr>resourceName = rName,
                     config = \<lparr>enabled = None, restartOnChange = Some (\<not> autorestartNow)\<rparr>\<rparr>
      in sendApiMessage projectApi_setResourceConfig (SetResourceConfigPayload request))"

definition handleRestart :: "string \<Rightarrow> world \<Rightarrow> world" where
  "handleRestart rName = sendApiMessage serverApi_restartResource (ResourceNamePayload rName)"

definition handleStop :: "string \<Rightarrow> world \<Rightarrow> world" where
  "handleStop rName = sendApiMessage serverApi_stopResource (ResourceNamePayload rName)"

definition handleStart :: "string \<Rightarrow> world \<Rightarrow> world" where
  "handleStart rName = sendApiMessage serverApi_startResource (ResourceNamePayload rName)"

definition serverRelatedItems :: "bool \<Rightarrow> bool \<Rightarrow> string \<Rightarrow> ContextMenuItemsCollection" where
  "serverRelatedItems resourceRunning serverIsNotUp rName =
     (if resourceRunning then
        [Item \<lparr>id_item = ''stop'', icon = stopIcon, text_item = ''Stop'',
               disabled = Some serverIsNotUp, onClick = handleStop rName\<rparr>,
         Item \<lparr>id_item = ''restart'', icon = refreshIcon, text_item = ''Restart'',
               disabled = Some serverIsNotUp, onClick = handleRestart rName\<rparr>]
      else
        [Item \<lparr>id_item = ''Start'', icon = startIcon, text_item = ''Start'',
               disabled = Some serverIsNotUp, onClick = handleStart rName\<rparr>])"

definition fxdkCommandsItems :: "ResourceStatus \<Rightarrow> ContextMenuItemsCollection" where
  "fxdkCommandsItems resourceStatus =
     (if length (Object_values (watchCommands resourceStatus)) \<noteq> 0 then
        [ContextMenuItemSeparator,
         Item \<lparr>id_item = ''open-watch-commands-output'', icon = BsFillEyeFill,
               text_item = ''Watch commands output'', disabled = None,
               onClick = openCommandsOutput\<rparr>]
      else [])"

text \<open>
  The body of the \<^verbatim>\<open>useMemo\<close>. Its dependency list holds every input the body reads
  (the two toggle handlers change only with \<^verbatim>\<open>resourceName\<close>, \<^verbatim>\<open>isEnabled\<close> and
  \<^verbatim>\<open>isAutorestartOnChangeEnabled\<close>, which are listed), so the memoised value is the
  value of this function at the current inputs.
\<close>

definition buildLifecycleContextMenuItems ::
  "bool \<Rightarrow> bool \<Rightarrow> string \<Rightarrow> ResourceStatus \<Rightarrow> bool \<Rightarrow> bool \<Rightarrow> ContextMenuItemsCollection" where
  "buildLifecycleContextMenuItems serverIsNotUp resourceRunning rName resourceStatus enabledNow autorestartNow =
     serverRelatedItems resourceRunning serverIsNotUp rName @
     [ContextMenuItemSeparator,
      Item \<lparr>id_item = ''toggle-enabled'',
            icon = (if enabledNow then disabledResourceIcon else enabledResourceIcon),
            text_item = (if enabledNow then ''Disable resource'' else ''Enable resource''),
            disabled = None,
            onClick = handleToggleEnabled rName enabledNow\<rparr>,
      Item \<lparr>id_item = ''toggle-autorestart-enabled'',
            icon = (if autorestartNow then BsSquare else BsCheckBox),
            text_item = (if autorestartNow then ''Disable restart on change''
                         else ''Enable restart on change''),
            disabled = None,
            onClick = handleToggleAutorestartEnabled rName autorestartNow\<rparr>] @
     fxdkCommandsItems resourceStatus"

record lifecycle =
  resourceIsEnabled :: bool
  resourceIsRunning :: bool
  lifecycleContextMenuItems :: ContextMenuItemsCollection
  commandsOutputOpen :: bool
  closeCommandsOutput :: "world \<Rightarrow> world"

text \<open>
  The hook, evaluated in one render pass: \<open>server\<close> is the connectivity store and \<open>w\<close>
  holds the React state as that pass sees it.
\<close>

definition useResourceLifecycle ::
  "ServerState \<Rightarrow> world \<Rightarrow> string \<Rightarrow> ProjectResource option \<Rightarrow> ResourceStatus \<Rightarrow> lifecycle" where
  "useResourceLifecycle server w rName resourceConfig resourceStatus =
     (let serverIsNotUp = \<not> isUp server;
          resourceRunning = isResourceRunning server rName;
          enabledNow = isEnabled resourceConfig;
          autorestartNow = isAutorestartOnChangeEnabled resourceConfig
      in \<lparr>resourceIsEnabled = enabledNow,
          resourceIsRunning = resourceRunning,
          lifecycleContextMenuItems =
            buildLifecycleContextMenuItems serverIsNotUp resourceRunning rName resourceStatus
              enabledNow autorestartNow,
          commandsOutputOpen = commandsOutputOpenState w,
          closeCommandsOutput = closeCommandsOutput_handler\<rparr>)"

section \<open>The Resource component\<close>

text \<open>
  The options read from \<^verbatim>\<open>ProjectExplorerItemContext\<close> (\<^verbatim>\<open>item.context\<close>, not among the
  sources): optional flags.
\<close>

record ProjectExplorerItemContext =
  disableAssetCreate :: "bool option"
  disableAssetDelete :: "bool option"
  disableAssetRename :: "bool option"

definition contextOptions :: ProjectExplorerItemContext where
  "contextOptions =
     \<lparr>disableAssetCreate = Some True, disableAssetDelete = None, disableAssetRename = None\<rparr>"

text \<open>
  The item's whole context menu. The entries that come from \<^verbatim>\<open>useItem\<close> and
  \<^verbatim>\<open>useItemRelocateTargetContextMenu\<close> are inputs.
\<close>

definition itemContextMenuItems ::
  "ContextMenuItemsCollection \<Rightarrow> ContextMenuItemsCollection \<Rightarrow> ProjectExplorerItemContext \<Rightarrow>
   ContextMenuItemsCollection \<Rightarrow> ContextMenuItemsCollection \<Rightarrow> ContextMenuItemsCollection" where
  "itemContextMenuItems lifecycleItems relocateTargetContextMenu options contextMenuItems
     requiredContextMenuItems =
     lifecycleItems @
     [ContextMenuItemSeparator] @
     relocateTargetContextMenu @
     [ContextMenuItemSeparator,
      Item \<lparr>id_item = ''delete'', icon = deleteIcon, text_item = ''Delete resource'',
            disabled = disableAssetDelete options, onClick = openDeleter\<rparr>,
      Item \<lparr>id_item = ''rename'', icon = renameIcon, text_item = ''Rename resource'',
            disabled = disableAssetRename options, onClick = openRenamer\<rparr>,
      ContextMenuItemSeparator] @
     contextMenuItems @
     [ContextMenuItemSeparator] @
     requiredContextMenuItems"

section \<open>ResourceStatusNode\<close>

text \<open>
  What a component returns: \<^verbatim>\<open>null\<close>, a text or number child, an icon element, or a
  \<^verbatim>\<open>div\<close> with its class (the key of \<^verbatim>\<open>itemsStyles\<close>), its title and its children.
\<close>

datatype react_node =
    RNull
  | RText string
  | RNumber nat
  | RIcon icon_node
  | RDiv string "string option" "react_node list"

definition watchCommandsNode :: "ResourceStatus \<Rightarrow> react_node" where
  "watchCommandsNode resourceStatus =
     (let cmds = Object_values (watchCommands resourceStatus)
      in if length cmds \<noteq> 0 then
           RDiv ''itemStatusEntry'' (Some ''Watch commands: running / declared'')
             [RIcon BsFillEyeFill, RText '' '',
              RNumber (length (filter running cmds)), RText ''/'', RNumber (length cmds)]
         else RNull)"

definition ResourceStatusNode :: "ResourceStatus \<Rightarrow> react_node" where
  "ResourceStatusNode resourceStatus = RDiv ''itemStatus'' None [watchCommandsNode resourceStatus]"

section \<open>renderedIf\<close>

text \<open>
  The element \<^verbatim>\<open><Component {...props} />\<close>: the component and the props it will be called
  with. \<^verbatim>\<open>null\<close> is \<open>None\<close>.
\<close>

datatype ('c, 'p) jsx_element = JsxElement 'c 'p

definition renderedIf :: "(unit \<Rightarrow> bool) \<Rightarrow> 'c \<Rightarrow> 'p \<Rightarrow> ('c, 'p) jsx_element option" where
  "renderedIf precondition Component =
     (\<lambda>props. if \<not> precondition () then None else Some (JsxElement Component props))"

section \<open>Reading a menu\<close>

fun menu_items :: "ContextMenuItemsCollection \<Rightarrow> ContextMenuItem list" where
  "menu_items [] = []"
| "menu_items (ContextMenuItemSeparator # es) = menu_items es"
| "menu_items (Item it # es) = it # menu_items es"

definition entries_with_text :: "string \<Rightarrow> ContextMenuItemsCollection \<Rightarrow> ContextMenuItem list" where
  "entries_with_text t menu = filter (\<lambda>it. text_item it = t) (menu_items menu)"

definition entries_with_id :: "string \<Rightarrow> ContextMenuItemsCollection \<Rightarrow> ContextMenuItem list" where
  "entries_with_id i menu = filter (\<lambda>it. id_item it = i) (menu_items menu)"

text \<open>The start, stop and restart entries of a menu, by their labels.\<close>

definition lifecycle_commands :: "ContextMenuItemsCollection \<Rightarrow> ContextMenuItem list" where
  "lifecycle_commands menu =
     filter (\<lambda>it. text_item it \<in> set [''Start'', ''Stop'', ''Restart'']) (menu_items menu)"

text \<open>The three modal flags, in the order deleter, renamer, commands output.\<close>

definition modal_flags :: "world \<Rightarrow> bool \<times> bool \<times> bool" where
  "modal_flags w = (deleterOpenState w, renamerOpenState w, commandsOutputOpenState w)"

lemma menu_items_append: "menu_items (xs @ ys) = menu_items xs @ menu_items ys"
  by (induction xs rule: menu_items.induct) simp_all

section \<open>What the hook returns, entry by entry\<close>

lemmas handler_defs = handleStart_def handleStop_def handleRestart_def
  handleToggleEnabled_def handleToggleAutorestartEnabled_def sendApiMessage_def

lemma menu_items_serverRelated:
  "menu_items (serverRelatedItems run down n) =
     (if run then
        [\<lparr>id_item = ''stop'', icon = stopIcon, text_item = ''Stop'',
          disabled = Some down, onClick = handleStop n\<rparr>,
         \<lparr>id_item = ''restart'', icon = refreshIcon, text_item = ''Restart'',
          disabled = Some down, onClick = handleRestart n\<rparr>]
      else
        [\<lparr>id_item = ''Start'', icon = startIcon, text_item = ''Start'',
          disabled = Some down, onClick = handleStart n\<rparr>])"
  by (simp add: serverRelatedItems_def)

lemma menu_items_fxdk:
  "menu_items (fxdkCommandsItems st) =
     (if watchCommands st \<noteq> [] then
        [\<lparr>id_item = ''open-watch-commands-output'', icon = BsFillEyeFill,
          text_item = ''Watch commands output'', disabled = None,
          onClick = openCommandsOutput\<rparr>]
      else [])"
  by (simp add: fxdkCommandsItems_def Object_values_def)

lemma menu_items_lifecycle:
  "menu_items (buildLifecycleContextMenuItems down run n st e a) =
     menu_items (serverRelatedItems run down n) @
     [\<lparr>id_item = ''toggle-enabled'',
       icon = (if e then disabledResourceIcon else enabledResourceIcon),
       text_item = (if e then ''Disable resource'' else ''Enable resource''),
       disabled = None,
       onClick = handleToggleEnabled n e\<rparr>,
      \<lparr>id_item = ''toggle-autorestart-enabled'',
       icon = (if a then BsSquare else BsCheckBox),
       text_item = (if a then ''Disable restart on change'' else ''Enable restart on change''),
       disabled = None,
       onClick = handleToggleAutorestartEnabled n a\<rparr>] @
     menu_items (fxdkCommandsItems st)"
  by (simp add: buildLifecycleContextMenuItems_def menu_items_append)

lemma lifecycle_menu_of_hook:
  "lifecycleContextMenuItems (useResourceLifecycle server w n cfg st) =
     buildLifecycleContextMenuItems (\<not> isUp server) (isResourceRunning server n) n st
       (isEnabled cfg) (isAutorestartOnChangeEnabled cfg)"
  by (simp add: useResourceLifecycle_def Let_def)

lemma flags_of_hook:
  "resourceIsEnabled (useResourceLifecycle server w n cfg st) = isEnabled cfg"
  "resourceIsRunning (useResourceLifecycle server w n cfg st) = isResourceRunning server n"
  "commandsOutputOpen (useResourceLifecycle server w n cfg st) = commandsOutputOpenState w"
  "closeCommandsOutput (useResourceLifecycle server w n cfg st) = closeCommandsOutput_handler"
  by (simp_all add: useResourceLifecycle_def Let_def)

lemma truthy_iff: "truthy x \<longleftrightarrow> x = Some True"
  by (cases x) simp_all

lemmas menu_simps = lifecycle_menu_of_hook menu_items_lifecycle menu_items_serverRelated
  menu_items_fxdk

lemma running_count:
  "length (filter running (Object_values cmds)) = count_list (map (\<lambda>(k, c). running c) cmds) True"
  by (induction cmds) (auto simp: Object_values_def)

section \<open>The claims\<close>

text \<open>
  C1. In the menu the hook returns, an entry labelled \<^verbatim>\<open>Start\<close> is present if and only if
  the resource is not running, and entries labelled \<^verbatim>\<open>Stop\<close> and \<^verbatim>\<open>Restart\<close> are present
  if and only if it is running. Activating any of these entries hands one message to the
  dispatch channel, with the entry's own endpoint (\<^verbatim>\<open>serverApi.startResource\<close>,
  \<^verbatim>\<open>stopResource\<close>, \<^verbatim>\<open>restartResource\<close>) and the bare resource name as payload, and
  changes nothing else.
\<close>

theorem lifecycle_entries_follow_running:
  "(entries_with_text ''Start'' (lifecycleContextMenuItems (useResourceLifecycle server w n cfg st)) \<noteq> []
      \<longleftrightarrow> \<not> resourceIsRunning (useResourceLifecycle server w n cfg st)) \<and>
   (entries_with_text ''Stop'' (lifecycleContextMenuItems (useResourceLifecycle server w n cfg st)) \<noteq> []
      \<longleftrightarrow> resourceIsRunning (useResourceLifecycle server w n cfg st)) \<and>
   (entries_with_text ''Restart'' (lifecycleContextMenuItems (useResourceLifecycle server w n cfg st)) \<noteq> []
      \<longleftrightarrow> resourceIsRunning (useResourceLifecycle server w n cfg st)) \<and>
   (\<forall>it \<in> set (entries_with_text ''Start''
                  (lifecycleContextMenuItems (useResourceLifecycle server w n cfg st))).
      onClick it w' =
        w'\<lparr>sentApiMessages := sentApiMessages w' @ [(serverApi_startResource, ResourceNamePayload n)]\<rparr>) \<and>
   (\<forall>it \<in> set (entries_with_text ''Stop''
                  (lifecycleContextMenuItems (useResourceLifecycle server w n cfg st))).
      onClick it w' =
        w'\<lparr>sentApiMessages := sentApiMessages w' @ [(serverApi_stopResource, ResourceNamePayload n)]\<rparr>) \<and>
   (\<forall>it \<in> set (entries_with_text ''Restart''
                  (lifecycleContextMenuItems (useResourceLifecycle server w n cfg st))).
      onClick it w' =
        w'\<lparr>sentApiMessages := sentApiMessages w' @ [(serverApi_restartResource, ResourceNamePayload n)]\<rparr>)"
  by (auto simp add: menu_simps flags_of_hook entries_with_text_def handler_defs)

theorem lifecycle_entries_follow_running_witness:
  "entries_with_text ''Start''
     (lifecycleContextMenuItems
        (useResourceLifecycle \<lparr>isUp = True, isResourceRunning = (\<lambda>r. r = ''chat'')\<rparr>
           initial_world ''chat'' None defaultResourceStatus)) = [] \<and>
   map (\<lambda>it. sentApiMessages (onClick it initial_world))
     (entries_with_text ''Stop''
        (lifecycleContextMenuItems
           (useResourceLifecycle \<lparr>isUp = True, isResourceRunning = (\<lambda>r. r = ''chat'')\<rparr>
              initial_world ''chat'' None defaultResourceStatus)))
     = [[(serverApi_stopResource, ResourceNamePayload ''chat'')]] \<and>
   map (\<lambda>it. sentApiMessages (onClick it initial_world))
     (entries_with_text ''Restart''
        (lifecycleContextMenuItems
           (useResourceLifecycle \<lparr>isUp = True, isResourceRunning = (\<lambda>r. r = ''chat'')\<rparr>
              initial_world ''chat'' None defaultResourceStatus)))
     = [[(serverApi_restartResource, ResourceNamePayload ''chat'')]] \<and>
   map (\<lambda>it. sentApiMessages (onClick it initial_world))
     (entries_with_text ''Start''
        (lifecycleContextMenuItems
           (useResourceLifecycle \<lparr>isUp = True, isResourceRunning = (\<lambda>r. r = ''chat'')\<rparr>
              initial_world ''map'' None defaultResourceStatus)))
     = [[(serverApi_startResource, ResourceNamePayload ''map'')]] \<and>
   entries_with_text ''Stop''
     (lifecycleContextMenuItems
        (useResourceLifecycle \<lparr>isUp = True, isResourceRunning = (\<lambda>r. r = ''chat'')\<rparr>
           initial_world ''map'' None defaultResourceStatus)) = []"
proof -
  let ?srv = "\<lparr>isUp = True, isResourceRunning = (\<lambda>r. r = ''chat'')\<rparr>"
  let ?chat = "useResourceLifecycle ?srv initial_world ''chat'' None defaultResourceStatus"
  let ?map = "useResourceLifecycle ?srv initial_world ''map'' None defaultResourceStatus"
  have chat_runs: "resourceIsRunning ?chat"
    by (simp add: flags_of_hook)
  have map_stopped: "\<not> resourceIsRunning ?map"
    by (simp add: flags_of_hook)
  have no_start: "entries_with_text ''Start'' (lifecycleContextMenuItems ?chat) = []"
    using lifecycle_entries_follow_running [of ?srv initial_world "''chat''" None defaultResourceStatus initial_world,
        THEN conjunct1] chat_runs
    by simp
  have no_stop: "entries_with_text ''Stop'' (lifecycleContextMenuItems ?map) = []"
    using lifecycle_entries_follow_running [of ?srv initial_world "''map''" None defaultResourceStatus initial_world,
        THEN conjunct2, THEN conjunct1] map_stopped
    by simp
  have sent:
    "map (\<lambda>it. sentApiMessages (onClick it initial_world))
       (entries_with_text ''Stop'' (lifecycleContextMenuItems ?chat))
       = [[(serverApi_stopResource, ResourceNamePayload ''chat'')]]"
    "map (\<lambda>it. sentApiMessages (onClick it initial_world))
       (entries_with_text ''Restart'' (lifecycleContextMenuItems ?chat))
       = [[(serverApi_restartResource, ResourceNamePayload ''chat'')]]"
    "map (\<lambda>it. sentApiMessages (onClick it initial_world))
       (entries_with_text ''Start'' (lifecycleContextMenuItems ?map))
       = [[(serverApi_startResource, ResourceNamePayload ''map'')]]"
    by (simp_all add: menu_simps entries_with_text_def handler_defs initial_world_def)
  show ?thesis
    using no_start no_stop sent by (simp only: simp_thms)
qed

text \<open>
  C2. When the server is not up, the lifecycle commands of the menu are the ones the
  running state calls for (\<^verbatim>\<open>Stop\<close> and \<^verbatim>\<open>Restart\<close> for a running resource, \<^verbatim>\<open>Start\<close>
  otherwise), each one present and carrying \<^verbatim>\<open>disabled: true\<close>; they are the same commands
  the menu holds when the server is up, so none is left out because the server is down.
\<close>

theorem lifecycle_entries_disabled_when_server_down:
  assumes "\<not> isUp server"
  shows "map (\<lambda>it. (text_item it, disabled it))
           (lifecycle_commands (lifecycleContextMenuItems (useResourceLifecycle server w n cfg st)))
         = (if isResourceRunning server n
            then [(''Stop'', Some True), (''Restart'', Some True)]
            else [(''Start'', Some True)])
       \<and> map text_item
           (lifecycle_commands (lifecycleContextMenuItems (useResourceLifecycle server w n cfg st)))
         = map text_item
           (lifecycle_commands
              (lifecycleContextMenuItems (useResourceLifecycle (server\<lparr>isUp := True\<rparr>) w n cfg st)))"
  using assms by (simp add: menu_simps lifecycle_commands_def)

theorem lifecycle_entries_disabled_when_server_down_witness:
  "\<not> isUp \<lparr>isUp = False, isResourceRunning = (\<lambda>r. r = ''chat'')\<rparr> \<and>
   map (\<lambda>it. (text_item it, disabled it))
     (lifecycle_commands
        (lifecycleContextMenuItems
           (useResourceLifecycle \<lparr>isUp = False, isResourceRunning = (\<lambda>r. r = ''chat'')\<rparr>
              initial_world ''chat'' None defaultResourceStatus)))
     = [(''Stop'', Some True), (''Restart'', Some True)] \<and>
   map (\<lambda>it. (text_item it, disabled it))
     (lifecycle_commands
        (lifecycleContextMenuItems
           (useResourceLifecycle \<lparr>isUp = False, isResourceRunning = (\<lambda>r. r = ''chat'')\<rparr>
              initial_world ''map'' None defaultResourceStatus)))
     = [(''Start'', Some True)]"
proof -
  have down: "\<not> isUp \<lparr>isUp = False, isResourceRunning = (\<lambda>r. r = ''chat'')\<rparr>"
    by simp
  show ?thesis
    using down
      lifecycle_entries_disabled_when_server_down [OF down, of initial_world "''chat''" None defaultResourceStatus]
      lifecycle_entries_disabled_when_server_down [OF down, of initial_world "''map''" None defaultResourceStatus]
    by simp
qed

text \<open>
  C3. Activating the \<^verbatim>\<open>toggle-enabled\<close> entry sends one \<^verbatim>\<open>project.setResourceConfig\<close>
  request whose config has \<^verbatim>\<open>enabled\<close> equal to the negation of the current
  \<^verbatim>\<open>isEnabled\<close> (so \<^verbatim>\<open>true\<close> for a resource that is not enabled, and the other way round);
  activating \<^verbatim>\<open>toggle-autorestart-enabled\<close> sends one whose config has
  \<^verbatim>\<open>restartOnChange\<close> equal to the negation of the current autorestart flag. There is
  exactly one entry of each id in the menu the hook returns.
\<close>

theorem toggle_entries_send_negated_flag:
  "map (\<lambda>it. sentApiMessages (onClick it w'))
       (entries_with_id ''toggle-enabled''
          (lifecycleContextMenuItems (useResourceLifecycle server w n cfg st)))
     = [sentApiMessages w' @
          [(projectApi_setResourceConfig,
            SetResourceConfigPayload
              \<lparr>resourceName = n,
               config = \<lparr>enabled = Some (\<not> isEnabled cfg), restartOnChange = None\<rparr>\<rparr>)]]
   \<and>
   map (\<lambda>it. sentApiMessages (onClick it w'))
       (entries_with_id ''toggle-autorestart-enabled''
          (lifecycleContextMenuItems (useResourceLifecycle server w n cfg st)))
     = [sentApiMessages w' @
          [(projectApi_setResourceConfig,
            SetResourceConfigPayload
              \<lparr>resourceName = n,
               config = \<lparr>enabled = None,
                         restartOnChange = Some (\<not> isAutorestartOnChangeEnabled cfg)\<rparr>\<rparr>)]]"
  by (simp add: lifecycle_menu_of_hook entries_with_id_def menu_items_lifecycle
      menu_items_serverRelated menu_items_fxdk handler_defs Let_def)

theorem toggle_entries_send_negated_flag_witness:
  "map (\<lambda>it. sentApiMessages (onClick it initial_world))
       (entries_with_id ''toggle-enabled''
          (lifecycleContextMenuItems
             (useResourceLifecycle \<lparr>isUp = True, isResourceRunning = (\<lambda>r. False)\<rparr>
                initial_world ''chat''
                (Some \<lparr>enabled = Some False, restartOnChange = Some True\<rparr>)
                defaultResourceStatus)))
     = [[(projectApi_setResourceConfig,
          SetResourceConfigPayload
            \<lparr>resourceName = ''chat'',
             config = \<lparr>enabled = Some True, restartOnChange = None\<rparr>\<rparr>)]]
   \<and>
   map (\<lambda>it. sentApiMessages (onClick it initial_world))
       (entries_with_id ''toggle-autorestart-enabled''
          (lifecycleContextMenuItems
             (useResourceLifecycle \<lparr>isUp = True, isResourceRunning = (\<lambda>r. False)\<rparr>
                initial_world ''chat''
                (Some \<lparr>enabled = Some False, restartOnChange = Some True\<rparr>)
                defaultResourceStatus)))
     = [[(projectApi_setResourceConfig,
          SetResourceConfigPayload
            \<lparr>resourceName = ''chat'',
             config = \<lparr>enabled = None, restartOnChange = Some False\<rparr>\<rparr>)]]"
  using toggle_entries_send_negated_flag
    [of initial_world "\<lparr>isUp = True, isResourceRunning = (\<lambda>r. False)\<rparr>" initial_world "''chat''"
      "Some \<lparr>enabled = Some False, restartOnChange = Some True\<rparr>" defaultResourceStatus]
  by (simp add: isEnabled_def isAutorestartOnChangeEnabled_def optional_chain_def
      initial_world_def)

text \<open>
  C4. The derived flag \<^verbatim>\<open>isEnabled\<close> is true exactly when the config is present and its
  \<^verbatim>\<open>enabled\<close> field is present and true; in every other case (no config, no field, a
  false field) it is false. The same holds of \<^verbatim>\<open>isAutorestartOnChangeEnabled\<close> and
  \<^verbatim>\<open>restartOnChange\<close>. The hook returns \<^verbatim>\<open>isEnabled\<close> as \<^verbatim>\<open>resourceIsEnabled\<close>.
\<close>

theorem derived_flags_default_false:
  "(isEnabled cfg \<longleftrightarrow> (\<exists>c. cfg = Some c \<and> enabled c = Some True)) \<and>
   (isAutorestartOnChangeEnabled cfg \<longleftrightarrow>
      (\<exists>c. cfg = Some c \<and> restartOnChange c = Some True)) \<and>
   resourceIsEnabled (useResourceLifecycle server w n cfg st) = isEnabled cfg"
  by (cases cfg)
    (simp_all add: isEnabled_def isAutorestartOnChangeEnabled_def optional_chain_def
      truthy_iff flags_of_hook)

theorem derived_flags_default_false_witness:
  "isEnabled None = False \<and>
   isEnabled (Some \<lparr>enabled = None, restartOnChange = Some True\<rparr>) = False \<and>
   isEnabled (Some \<lparr>enabled = Some False, restartOnChange = Some True\<rparr>) = False \<and>
   isEnabled (Some \<lparr>enabled = Some True, restartOnChange = None\<rparr>) = True \<and>
   isAutorestartOnChangeEnabled None = False \<and>
   isAutorestartOnChangeEnabled (Some \<lparr>enabled = Some True, restartOnChange = None\<rparr>) = False \<and>
   isAutorestartOnChangeEnabled (Some \<lparr>enabled = None, restartOnChange = Some True\<rparr>) = True"
  using derived_flags_default_false [of None]
    derived_flags_default_false [of "Some \<lparr>enabled = None, restartOnChange = Some True\<rparr>"]
    derived_flags_default_false [of "Some \<lparr>enabled = Some False, restartOnChange = Some True\<rparr>"]
    derived_flags_default_false [of "Some \<lparr>enabled = Some True, restartOnChange = None\<rparr>"]
  by simp

text \<open>
  C5. The \<^verbatim>\<open>resourceIsRunning\<close> the hook returns is the connectivity store's answer to
  \<^verbatim>\<open>isResourceRunning(resourceName)\<close>. Two evaluations that differ only in the config's
  \<^verbatim>\<open>enabled\<close> field return the same value; indeed the config does not matter at all.
\<close>

theorem running_flag_independent_of_config:
  "resourceIsRunning (useResourceLifecycle server w n cfg st) = isResourceRunning server n \<and>
   resourceIsRunning (useResourceLifecycle server w n (Some (c\<lparr>enabled := e\<rparr>)) st) =
     resourceIsRunning (useResourceLifecycle server w n (Some c) st) \<and>
   resourceIsRunning (useResourceLifecycle server w n cfg st) =
     resourceIsRunning (useResourceLifecycle server w n cfg' st)"
  by (simp add: flags_of_hook)

theorem running_flag_independent_of_config_witness:
  "resourceIsRunning
     (useResourceLifecycle \<lparr>isUp = True, isResourceRunning = (\<lambda>r. r = ''chat'')\<rparr> initial_world
        ''chat'' (Some \<lparr>enabled = Some False, restartOnChange = None\<rparr>) defaultResourceStatus)
   = True \<and>
   resourceIsRunning
     (useResourceLifecycle \<lparr>isUp = True, isResourceRunning = (\<lambda>r. r = ''chat'')\<rparr> initial_world
        ''chat'' (Some \<lparr>enabled = Some True, restartOnChange = None\<rparr>) defaultResourceStatus)
   = True \<and>
   resourceIsRunning
     (useResourceLifecycle \<lparr>isUp = True, isResourceRunning = (\<lambda>r. r = ''chat'')\<rparr> initial_world
        ''map'' (Some \<lparr>enabled = Some True, restartOnChange = None\<rparr>) defaultResourceStatus)
   = False"
  using
    running_flag_independent_of_config [of "\<lparr>isUp = True, isResourceRunning = (\<lambda>r. r = ''chat'')\<rparr>" initial_world "''chat''"
      "Some \<lparr>enabled = Some False, restartOnChange = None\<rparr>" defaultResourceStatus]
    running_flag_independent_of_config [of "\<lparr>isUp = True, isResourceRunning = (\<lambda>r. r = ''chat'')\<rparr>" initial_world "''chat''"
      "Some \<lparr>enabled = Some True, restartOnChange = None\<rparr>" defaultResourceStatus]
    running_flag_independent_of_config [of "\<lparr>isUp = True, isResourceRunning = (\<lambda>r. r = ''chat'')\<rparr>" initial_world "''map''"
      "Some \<lparr>enabled = Some True, restartOnChange = None\<rparr>" defaultResourceStatus]
  by simp

text \<open>
  C6. For a non-empty \<^verbatim>\<open>watchCommands\<close> the indicator holds the eye icon, the number of
  values with \<^verbatim>\<open>running = true\<close>, the text \<^verbatim>\<open>/\<close> and the number of values; for an empty one
  the indicator is \<^verbatim>\<open>null\<close>. The entry \<^verbatim>\<open>Watch commands output\<close> is in the menu if and
  only if \<^verbatim>\<open>watchCommands\<close> is not empty. The running count is stated here as the number
  of occurrences of \<open>True\<close> among the \<^verbatim>\<open>running\<close> fields, not through the filter the
  component uses.
\<close>

theorem watch_commands_indicator:
  "watchCommandsNode st =
     (if watchCommands st = [] then RNull
      else RDiv ''itemStatusEntry'' (Some ''Watch commands: running / declared'')
             [RIcon BsFillEyeFill, RText '' '',
              RNumber (count_list (map (\<lambda>(k, c). running c) (watchCommands st)) True),
              RText ''/'',
              RNumber (length (watchCommands st))]) \<and>
   ResourceStatusNode st = RDiv ''itemStatus'' None [watchCommandsNode st] \<and>
   (entries_with_text ''Watch commands output''
      (lifecycleContextMenuItems (useResourceLifecycle server w n cfg st)) \<noteq> []
    \<longleftrightarrow> watchCommands st \<noteq> [])"
proof -
  have "length (Object_values (watchCommands st)) = length (watchCommands st)"
    by (simp add: Object_values_def)
  then have node: "watchCommandsNode st =
     (if watchCommands st = [] then RNull
      else RDiv ''itemStatusEntry'' (Some ''Watch commands: running / declared'')
             [RIcon BsFillEyeFill, RText '' '',
              RNumber (count_list (map (\<lambda>(k, c). running c) (watchCommands st)) True),
              RText ''/'',
              RNumber (length (watchCommands st))])"
    by (simp add: watchCommandsNode_def Let_def running_count) (simp add: Object_values_def)
  have entry: "entries_with_text ''Watch commands output''
      (lifecycleContextMenuItems (useResourceLifecycle server w n cfg st)) \<noteq> []
    \<longleftrightarrow> watchCommands st \<noteq> []"
    by (simp add: menu_simps entries_with_text_def)
  show ?thesis
    using node entry by (simp add: ResourceStatusNode_def)
qed

theorem watch_commands_indicator_witness:
  "watchCommandsNode
     \<lparr>watchCommands = [(''a'', \<lparr>running = True\<rparr>), (''b'', \<lparr>running = False\<rparr>)]\<rparr>
   = RDiv ''itemStatusEntry'' (Some ''Watch commands: running / declared'')
       [RIcon BsFillEyeFill, RText '' '', RNumber 1, RText ''/'', RNumber 2] \<and>
   watchCommandsNode defaultResourceStatus = RNull \<and>
   ResourceStatusNode defaultResourceStatus = RDiv ''itemStatus'' None [RNull] \<and>
   entries_with_text ''Watch commands output''
     (lifecycleContextMenuItems
        (useResourceLifecycle \<lparr>isUp = True, isResourceRunning = (\<lambda>r. False)\<rparr> initial_world
           ''chat'' None defaultResourceStatus)) = [] \<and>
   map id_item
     (entries_with_text ''Watch commands output''
        (lifecycleContextMenuItems
           (useResourceLifecycle \<lparr>isUp = True, isResourceRunning = (\<lambda>r. False)\<rparr> initial_world
              ''chat'' None
              \<lparr>watchCommands = [(''a'', \<lparr>running = True\<rparr>), (''b'', \<lparr>running = False\<rparr>)]\<rparr>)))
     = [''open-watch-commands-output'']"
  using
    watch_commands_indicator [of "\<lparr>watchCommands = [(''a'', \<lparr>running = True\<rparr>), (''b'', \<lparr>running = False\<rparr>)]\<rparr>"
      "\<lparr>isUp = True, isResourceRunning = (\<lambda>r. False)\<rparr>" initial_world "''chat''" None]
    watch_commands_indicator [of defaultResourceStatus
      "\<lparr>isUp = True, isResourceRunning = (\<lambda>r. False)\<rparr>" initial_world "''chat''" None]
  by (simp add: defaultResourceStatus_def menu_simps entries_with_text_def)

text \<open>
  C7. Whatever the server state, the menu has exactly one \<^verbatim>\<open>toggle-enabled\<close> entry and
  exactly one \<^verbatim>\<open>toggle-autorestart-enabled\<close> entry, and neither has a \<^verbatim>\<open>disabled\<close> key.
  Label and icon name the action: \<^verbatim>\<open>Disable resource\<close> with the disabled-resource icon
  exactly when \<^verbatim>\<open>isEnabled\<close> holds, and activating the entry then sends
  \<^verbatim>\<open>enabled: false\<close>; likewise for restart on change.
\<close>

theorem toggle_entries_always_enabled_and_inverted:
  "map (\<lambda>it. (disabled it, text_item it, icon it, sentApiMessages (onClick it w')))
       (entries_with_id ''toggle-enabled''
          (lifecycleContextMenuItems (useResourceLifecycle server w n cfg st)))
     = [(None,
         if isEnabled cfg then ''Disable resource'' else ''Enable resource'',
         if isEnabled cfg then disabledResourceIcon else enabledResourceIcon,
         sentApiMessages w' @
           [(projectApi_setResourceConfig,
             SetResourceConfigPayload
               \<lparr>resourceName = n,
                config = \<lparr>enabled = Some (\<not> isEnabled cfg), restartOnChange = None\<rparr>\<rparr>)])]
   \<and>
   map (\<lambda>it. (disabled it, text_item it, icon it, sentApiMessages (onClick it w')))
       (entries_with_id ''toggle-autorestart-enabled''
          (lifecycleContextMenuItems (useResourceLifecycle server w n cfg st)))
     = [(None,
         if isAutorestartOnChangeEnabled cfg then ''Disable restart on change''
         else ''Enable restart on change'',
         if isAutorestartOnChangeEnabled cfg then BsSquare else BsCheckBox,
         sentApiMessages w' @
           [(projectApi_setResourceConfig,
             SetResourceConfigPayload
               \<lparr>resourceName = n,
                config = \<lparr>enabled = None,
                          restartOnChange = Some (\<not> isAutorestartOnChangeEnabled cfg)\<rparr>\<rparr>)])]"
  by (simp add: menu_simps entries_with_id_def handler_defs Let_def)

theorem toggle_entries_always_enabled_and_inverted_witness:
  "map (\<lambda>it. (disabled it, text_item it, icon it))
     (entries_with_id ''toggle-enabled''
        (lifecycleContextMenuItems
           (useResourceLifecycle \<lparr>isUp = False, isResourceRunning = (\<lambda>r. False)\<rparr> initial_world
              ''chat'' (Some \<lparr>enabled = Some True, restartOnChange = Some False\<rparr>)
              defaultResourceStatus)))
     = [(None, ''Disable resource'', disabledResourceIcon)] \<and>
   map (\<lambda>it. (disabled it, text_item it, icon it))
     (entries_with_id ''toggle-autorestart-enabled''
        (lifecycleContextMenuItems
           (useResourceLifecycle \<lparr>isUp = False, isResourceRunning = (\<lambda>r. False)\<rparr> initial_world
              ''chat'' (Some \<lparr>enabled = Some True, restartOnChange = Some False\<rparr>)
              defaultResourceStatus)))
     = [(None, ''Enable restart on change'', BsCheckBox)]"
  using
    toggle_entries_always_enabled_and_inverted [of initial_world "\<lparr>isUp = False, isResourceRunning = (\<lambda>r. False)\<rparr>" initial_world
      "''chat''" "Some \<lparr>enabled = Some True, restartOnChange = Some False\<rparr>"
      defaultResourceStatus]
  by (simp add: isEnabled_def isAutorestartOnChangeEnabled_def optional_chain_def
      menu_simps entries_with_id_def)

text \<open>
  C8. At mount the three modal flags are false. Each open or close function sets or
  clears its own flag, leaves the other two as they were, and sends nothing through the
  dispatch channel; the five dispatching handlers leave all three flags as they were.
  The \<^verbatim>\<open>delete\<close> and \<^verbatim>\<open>rename\<close> entries of the item's menu have \<^verbatim>\<open>openDeleter\<close> and
  \<^verbatim>\<open>openRenamer\<close> themselves as their \<^verbatim>\<open>onClick\<close>.
\<close>

theorem modal_flags_local:
  "modal_flags initial_world = (False, False, False) \<and>
   sentApiMessages (openDeleter w) = sentApiMessages w \<and>
   sentApiMessages (closeDeleter w) = sentApiMessages w \<and>
   sentApiMessages (openRenamer w) = sentApiMessages w \<and>
   sentApiMessages (closeRenamer w) = sentApiMessages w \<and>
   sentApiMessages (openCommandsOutput w) = sentApiMessages w \<and>
   sentApiMessages (closeCommandsOutput_handler w) = sentApiMessages w \<and>
   modal_flags (openDeleter w) = (True, renamerOpenState w, commandsOutputOpenState w) \<and>
   modal_flags (closeDeleter w) = (False, renamerOpenState w, commandsOutputOpenState w) \<and>
   modal_flags (openRenamer w) = (deleterOpenState w, True, commandsOutputOpenState w) \<and>
   modal_flags (closeRenamer w) = (deleterOpenState w, False, commandsOutputOpenState w) \<and>
   modal_flags (openCommandsOutput w) = (deleterOpenState w, renamerOpenState w, True) \<and>
   modal_flags (closeCommandsOutput_handler w) = (deleterOpenState w, renamerOpenState w, False) \<and>
   modal_flags (handleStart n w) = modal_flags w \<and>
   modal_flags (handleStop n w) = modal_flags w \<and>
   modal_flags (handleRestart n w) = modal_flags w \<and>
   modal_flags (handleToggleEnabled n e w) = modal_flags w \<and>
   modal_flags (handleToggleAutorestartEnabled n a w) = modal_flags w \<and>
   (\<exists>it \<in> set (entries_with_id ''delete'' (itemContextMenuItems lifecycleItems relocate options items required)).
      onClick it = openDeleter) \<and>
   (\<exists>it \<in> set (entries_with_id ''rename'' (itemContextMenuItems lifecycleItems relocate options items required)).
      onClick it = openRenamer)"
  by (simp add: modal_flags_def initial_world_def openDeleter_def closeDeleter_def
      openRenamer_def closeRenamer_def openCommandsOutput_def closeCommandsOutput_handler_def
      handler_defs Let_def itemContextMenuItems_def entries_with_id_def menu_items_append)

theorem modal_flags_local_witness:
  "modal_flags (openDeleter initial_world) = (True, False, False) \<and>
   sentApiMessages (openDeleter initial_world) = [] \<and>
   modal_flags (openRenamer (openDeleter initial_world)) = (True, True, False) \<and>
   sentApiMessages (openRenamer (openDeleter initial_world)) = [] \<and>
   modal_flags (closeDeleter (openRenamer (openDeleter initial_world))) = (False, True, False) \<and>
   modal_flags (handleStart ''chat'' (openDeleter initial_world)) = (True, False, False)"
  using modal_flags_local [of initial_world] modal_flags_local [of "openDeleter initial_world"]
    modal_flags_local [of "openRenamer (openDeleter initial_world)"]
  by (simp add: modal_flags_def initial_world_def openDeleter_def closeDeleter_def
      openRenamer_def handler_defs)

text \<open>
  C9. The component \<^verbatim>\<open>renderedIf(precondition, Component)\<close> returns \<^verbatim>\<open>null\<close> when
  \<^verbatim>\<open>precondition()\<close> is false, and otherwise the element of \<^verbatim>\<open>Component\<close> with the props it
  was given, unchanged.
\<close>

theorem renderedIf_null_or_component:
  "renderedIf precondition Component props =
     (if precondition () then Some (JsxElement Component props) else None)"
  by (simp add: renderedIf_def)

theorem renderedIf_null_or_component_witness:
  "renderedIf (\<lambda>u. False) ''ServerButton'' (3::nat) = None \<and>
   renderedIf (\<lambda>u. True) ''ServerButton'' (3::nat) = Some (JsxElement ''ServerButton'' 3)"
  using renderedIf_null_or_component [of "\<lambda>u. False" "''ServerButton''" "3::nat"]
    renderedIf_null_or_component [of "\<lambda>u. True" "''ServerButton''" "3::nat"]
  by simp

text \<open>
  C10. The request sent by \<^verbatim>\<open>handleToggleEnabled\<close> names the resource, has the key
  \<^verbatim>\<open>enabled\<close> in its config and no \<^verbatim>\<open>restartOnChange\<close> key; the request sent by
  \<^verbatim>\<open>handleToggleAutorestartEnabled\<close> names the resource, has the key \<^verbatim>\<open>restartOnChange\<close>
  and no \<^verbatim>\<open>enabled\<close> key.
\<close>

theorem toggle_requests_patch_own_field:
  "(\<exists>req. sentApiMessages (handleToggleEnabled n e w) =
            sentApiMessages w @ [(projectApi_setResourceConfig, SetResourceConfigPayload req)] \<and>
          resourceName req = n \<and>
          enabled (config req) \<noteq> None \<and> restartOnChange (config req) = None) \<and>
   (\<exists>req. sentApiMessages (handleToggleAutorestartEnabled n a w) =
            sentApiMessages w @ [(projectApi_setResourceConfig, SetResourceConfigPayload req)] \<and>
          resourceName req = n \<and>
          restartOnChange (config req) \<noteq> None \<and> enabled (config req) = None)"
  by (simp add: handler_defs Let_def)

theorem toggle_requests_patch_own_field_witness:
  "sentApiMessages (handleToggleEnabled ''chat'' False initial_world) =
     [(projectApi_setResourceConfig,
       SetResourceConfigPayload
         \<lparr>resourceName = ''chat'', config = \<lparr>enabled = Some True, restartOnChange = None\<rparr>\<rparr>)] \<and>
   sentApiMessages (handleToggleAutorestartEnabled ''chat'' True initial_world) =
     [(projectApi_setResourceConfig,
       SetResourceConfigPayload
         \<lparr>resourceName = ''chat'', config = \<lparr>enabled = None, restartOnChange = Some False\<rparr>\<rparr>)]"
  using toggle_requests_patch_own_field [of "''chat''" False initial_world True]
  by (simp add: handler_defs initial_world_def)

end
